theory Spec2Isabelle
  imports Main
begin

section \<open>anchorfix: sequential anchor identifiers for HTML documents\<close>

text \<open>
  The package consists of \<^verbatim>\<open>__init__.py\<close>, \<^verbatim>\<open>__main__.py\<close>, the test module
  \<^verbatim>\<open>_core_test.py\<close> and the module \<^verbatim>\<open>_core.py\<close>. The first three are embedded from
  their source. The text of \<^verbatim>\<open>_core.py\<close> is not available: its functions are modelled
  from the specification, section by section, and each such definition says so.

  Text is a \<^typ>\<open>string\<close> read as the sequence of the bytes of its UTF-8 encoding, so a
  multi-byte character and the percent-encoding of its bytes decode to the same list.
\<close>

subsection \<open>Document tree\<close>

text \<open>
  Modelled from the spec: the Document Tree of \<^verbatim>\<open>_core.py\<close> (section 3), an ordered
  tree of elements with a tag name and an attribute mapping with unique keys. The parser
  and the serializer belong to an external HTML library and are parameters of the
  pipeline below.
\<close>

type_synonym attrs = "string \<rightharpoonup> string"

datatype node = Element string attrs "node list" | Text string

type_synonym document = "node list"

type_synonym element = "string \<times> attrs"

text \<open>
  Modelled from the spec: traverse-in-document-order (section 9), the elements in the
  order in which they open in the source text.
\<close>

fun elements :: "node \<Rightarrow> element list" where
  "elements (Text s) = []"
| "elements (Element t a cs) = (t, a) # concat (map elements cs)"

definition traverse :: "document \<Rightarrow> element list" where
  "traverse doc = concat (map elements doc)"

text \<open>
  Modelled from the spec: set-attribute (section 9) applied over the whole tree. The
  tree is mutated in place in the program; here the new tree is returned. \<open>f\<close> gives the
  new attribute mapping of an element from its tag and its current attributes.
\<close>

fun set_attrs :: "(element \<Rightarrow> attrs) \<Rightarrow> node \<Rightarrow> node" where
  "set_attrs f (Text s) = Text s"
| "set_attrs f (Element t a cs) = Element t (f (t, a)) (map (set_attrs f) cs)"

definition update_elements :: "(element \<Rightarrow> attrs) \<Rightarrow> document \<Rightarrow> document" where
  "update_elements f doc = map (set_attrs f) doc"

subsection \<open>Identifier Generator\<close>

definition digit_char :: "nat \<Rightarrow> char" where
  "digit_char d = ''0123456789'' ! d"

fun decimal :: "nat \<Rightarrow> string" where
  "decimal n = (if n < 10 then [digit_char n] else decimal (n div 10) @ [digit_char (n mod 10)])"

declare decimal.simps [simp del]

definition zero_pad :: "nat \<Rightarrow> string \<Rightarrow> string" where
  "zero_pad w s = replicate (w - length s) CHR ''0'' @ s"

text \<open>
  Modelled from the spec: the Identifier Generator of \<^verbatim>\<open>_core.py\<close> (section 4.1): the
  prefix followed by the counter in decimal, zero-padded to four digits.
\<close>

definition generate_id :: "string \<Rightarrow> nat \<Rightarrow> string" where
  "generate_id prefix n = prefix @ zero_pad 4 (decimal n)"

text \<open>Reading a digit string back as a number, to say what a generated identifier holds.\<close>

definition is_digit :: "char \<Rightarrow> bool" where
  "is_digit c = (48 \<le> (of_char c :: nat) \<and> (of_char c :: nat) \<le> 57)"

definition digits_value :: "string \<Rightarrow> nat" where
  "digits_value s = foldl (\<lambda>acc c. 10 * acc + (of_char c - 48)) 0 s"

subsection \<open>URL Normalizer\<close>

definition hex_val :: "char \<Rightarrow> nat option" where
  "hex_val c = (let n = (of_char c :: nat) in
     if 48 \<le> n \<and> n \<le> 57 then Some (n - 48)
     else if 65 \<le> n \<and> n \<le> 70 then Some (n - 55)
     else if 97 \<le> n \<and> n \<le> 102 then Some (n - 87)
     else None)"

text \<open>
  Percent-decoding: \<open>%\<close> followed by two hexadecimal digits stands for the byte they
  write. \<open>None\<close> is the decoding failure on a malformed sequence.
\<close>

fun percent_decode :: "string \<Rightarrow> string option" where
  "percent_decode [] = Some []"
| "percent_decode (c # cs) =
     (if c = CHR ''%'' then
        (case cs of
           h # l # rest \<Rightarrow>
             (case (hex_val h, hex_val l) of
                (Some x, Some y) \<Rightarrow> map_option ((#) (char_of (16 * x + y))) (percent_decode rest)
              | _ \<Rightarrow> None)
         | _ \<Rightarrow> None)
      else map_option ((#) c) (percent_decode cs))"

text \<open>
  Modelled from the spec: the URL Normalizer of \<^verbatim>\<open>_core.py\<close> (section 4.2): the
  percent-decoded string; on a malformed percent sequence the raw string as given.
\<close>

definition normalize :: "string \<Rightarrow> string" where
  "normalize s = (case percent_decode s of Some d \<Rightarrow> d | None \<Rightarrow> s)"

subsection \<open>Anchorable elements\<close>

datatype anchorable_kind = Heading | Anchor

definition heading_tags :: "string list" where
  "heading_tags = [''h1'', ''h2'', ''h3'', ''h4'', ''h5'', ''h6'']"

text \<open>
  Modelled from the spec: the dispatch by tag name (sections 6 and 9): \<open>h1\<close> to \<open>h6\<close> are
  headings, \<open>a\<close> is an anchor, no other tag is anchorable.
\<close>

definition kind_of_tag :: "string \<Rightarrow> anchorable_kind option" where
  "kind_of_tag t = (if t \<in> set heading_tags then Some Heading
                    else if t = ''a'' then Some Anchor else None)"

text \<open>
  Modelled from the spec: steps 1 and 2 of the Anchor Scanner (section 4.3): the name of
  the attribute that bears the identifier: \<open>id\<close> when present; for an anchor without
  \<open>id\<close>, \<open>name\<close> when present; otherwise the element is not anchorable.
\<close>

definition identifier_attr :: "element \<Rightarrow> string option" where
  "identifier_attr e =
     (case kind_of_tag (fst e) of
        None \<Rightarrow> None
      | Some Heading \<Rightarrow> (if snd e ''id'' \<noteq> None then Some ''id'' else None)
      | Some Anchor \<Rightarrow> (if snd e ''id'' \<noteq> None then Some ''id''
                        else if snd e ''name'' \<noteq> None then Some ''name'' else None))"

definition current_identifier :: "element \<Rightarrow> string option" where
  "current_identifier e = (case identifier_attr e of None \<Rightarrow> None | Some k \<Rightarrow> snd e k)"

subsection \<open>Anchor Scanner\<close>

datatype error = DuplicateIdError (id_value: string) | FileNotFoundError

record scan_state =
  counter :: nat
  id_map :: "string \<rightharpoonup> string"

text \<open>
  Modelled from the spec: steps 1 to 5 of the Anchor Scanner of \<^verbatim>\<open>_core.py\<close>
  (section 4.3) for one element.
\<close>

definition scan_element :: "string \<Rightarrow> scan_state \<Rightarrow> element \<Rightarrow> error + scan_state" where
  "scan_element prefix st e =
     (case current_identifier e of
        None \<Rightarrow> Inr st
      | Some old \<Rightarrow>
          (let key = normalize old in
           if id_map st key \<noteq> None then Inl (DuplicateIdError key)
           else Inr \<lparr>counter = counter st + 1,
                     id_map = (id_map st)(key \<mapsto> generate_id prefix (counter st))\<rparr>))"

text \<open>The loop over the elements in document order; it stops at the first error.\<close>

fun scan_elements :: "string \<Rightarrow> scan_state \<Rightarrow> element list \<Rightarrow> error + scan_state" where
  "scan_elements prefix st [] = Inr st"
| "scan_elements prefix st (e # es) =
     (case scan_element prefix st e of
        Inl err \<Rightarrow> Inl err
      | Inr st' \<Rightarrow> scan_elements prefix st' es)"

text \<open>
  Modelled from the spec: the Anchor Scanner (section 4.3), with the counter and the
  mapping local to the call (section 5): the counter starts at 1, the mapping empty.
\<close>

definition scan :: "string \<Rightarrow> document \<Rightarrow> error + scan_state" where
  "scan prefix doc = scan_elements prefix \<lparr>counter = 1, id_map = Map.empty\<rparr> (traverse doc)"

subsection \<open>Rewriter\<close>

text \<open>
  Modelled from the spec: the identifier pass of the Rewriter (section 4.4): the new
  identifier of an element is looked up under its normalized old identifier and written
  to the attribute the old one was read from.
\<close>

definition identifier_pass :: "(string \<rightharpoonup> string) \<Rightarrow> element \<Rightarrow> attrs" where
  "identifier_pass m e =
     (case identifier_attr e of
        None \<Rightarrow> snd e
      | Some k \<Rightarrow>
          (case snd e k of
             None \<Rightarrow> snd e
           | Some old \<Rightarrow>
               (case m (normalize old) of
                  None \<Rightarrow> snd e
                | Some new \<Rightarrow> (snd e)(k \<mapsto> new))))"

text \<open>
  Modelled from the spec: a Fragment Reference (section 3) is an attribute value that
  begins with \<open>#\<close>.
\<close>

definition fragment_only :: "string \<Rightarrow> bool" where
  "fragment_only v = (case v of [] \<Rightarrow> False | c # cs \<Rightarrow> c = CHR ''#'')"

definition rewrite_reference :: "(string \<rightharpoonup> string) \<Rightarrow> string \<Rightarrow> string" where
  "rewrite_reference m v =
     (if fragment_only v then
        (case m (normalize (tl v)) of
           Some new \<Rightarrow> CHR ''#'' # new
         | None \<Rightarrow> v)
      else v)"

text \<open>
  Modelled from the spec: the reference pass of the Rewriter (section 4.4), over every
  attribute other than the identifier-bearing one of an anchorable element.
\<close>

definition reference_pass :: "(string \<rightharpoonup> string) \<Rightarrow> element \<Rightarrow> attrs" where
  "reference_pass m e =
     (\<lambda>k. if identifier_attr e = Some k then snd e k
          else map_option (rewrite_reference m) (snd e k))"

definition rewrite :: "(string \<rightharpoonup> string) \<Rightarrow> document \<Rightarrow> document" where
  "rewrite m doc = update_elements (reference_pass m) (update_elements (identifier_pass m) doc)"

subsection \<open>Pipeline\<close>

text \<open>
  Modelled from the spec: the Pipeline of \<^verbatim>\<open>_core.py\<close> (section 4.5) between parsing
  and serialization: Scanner, then Rewriter; the duplicate-identifier error is
  propagated and nothing is rewritten.
\<close>

definition process_tree :: "string \<Rightarrow> document \<Rightarrow> error + document" where
  "process_tree prefix doc =
     (case scan prefix doc of
        Inl err \<Rightarrow> Inl err
      | Inr st \<Rightarrow> Inr (rewrite (id_map st) doc))"

text \<open>
  Modelled from the spec: \<^verbatim>\<open>process_html(html_text, prefix)\<close> of \<^verbatim>\<open>_core.py\<close>
  (section 4.5): parse, scan, rewrite, serialize. \<open>parse\<close> and \<open>serialize\<close> are the two
  capabilities of the external HTML library (section 9).
\<close>

definition process_html ::
  "(string \<Rightarrow> document) \<Rightarrow> (document \<Rightarrow> string) \<Rightarrow> string \<Rightarrow> string \<Rightarrow> error + string" where
  "process_html parse serialize html prefix =
     (case process_tree prefix (parse html) of
        Inl err \<Rightarrow> Inl err
      | Inr doc \<Rightarrow> Inr (serialize doc))"

text \<open>
  Modelled from the spec: \<^verbatim>\<open>process_html_file(path, prefix)\<close> of \<^verbatim>\<open>_core.py\<close>
  (section 4.5). The file system maps a path to the text of the file there; the
  function returns its result together with the file system it leaves behind.
\<close>

definition process_html_file ::
  "(string \<rightharpoonup> string) \<Rightarrow> (string \<Rightarrow> document) \<Rightarrow> (document \<Rightarrow> string) \<Rightarrow> string \<Rightarrow> string
     \<Rightarrow> (error + string) \<times> (string \<rightharpoonup> string)" where
  "process_html_file fs parse serialize path prefix =
     (case fs path of
        None \<Rightarrow> (Inl FileNotFoundError, fs)
      | Some text \<Rightarrow> (process_html parse serialize text prefix, fs))"

text \<open>What a document declares and what it holds after processing, in document order.\<close>

definition original_keys :: "document \<Rightarrow> string list" where
  "original_keys doc = map normalize (List.map_filter current_identifier (traverse doc))"

definition assigned_identifiers :: "document \<Rightarrow> string list" where
  "assigned_identifiers doc = List.map_filter current_identifier (traverse doc)"

subsection \<open>The top level of the package\<close>

text \<open>
  \<^verbatim>\<open>__init__.py\<close> is four statements: two \<^verbatim>\<open>from ... import\<close> statements and the
  assignments of \<^verbatim>\<open>__all__\<close> and \<^verbatim>\<open>__version__\<close>.
\<close>

datatype statement = FromImport string "string list" | Assign string

definition init_py :: "statement list" where
  "init_py =
     [FromImport ''importlib.metadata'' [''version''],
      FromImport ''._core'' [''PythonInfo'', ''anchorfix''],
      Assign ''__all__'',
      Assign ''__version__'']"

text \<open>The value assigned to \<^verbatim>\<open>__all__\<close> on line 5.\<close>

definition all_names :: "string list" where
  "all_names = [''anchorfix'', ''PythonInfo'']"

text \<open>The modules that lie in the package directory.\<close>

definition submodules :: "string list" where
  "submodules = [''_core'', ''_core_test'', ''__main__'']"

text \<open>
  The names a statement binds in the namespace of the module. A relative import of a
  submodule also binds the submodule itself.
\<close>

fun bound_names :: "statement \<Rightarrow> string list" where
  "bound_names (Assign n) = [n]"
| "bound_names (FromImport m ns) =
     (case m of
        c # sub \<Rightarrow> (if c = CHR ''.'' then [sub] else [])
      | [] \<Rightarrow>  []) @ ns"

datatype import_error = ImportError string

text \<open>
  \<^verbatim>\<open>from m import n1, n2, ...\<close>: each name in turn is looked up in the namespace of
  the module, then among its submodules; the first one found in neither raises
  \<^verbatim>\<open>ImportError\<close>.
\<close>

fun import_from :: "string list \<Rightarrow> string list \<Rightarrow> string list \<Rightarrow> import_error + unit" where
  "import_from ns subs [] = Inr ()"
| "import_from ns subs (n # rest) =
     (if n \<in> set ns \<or> n \<in> set subs then import_from ns subs rest
      else Inl (ImportError n))"

text \<open>
  Running \<^verbatim>\<open>__init__.py\<close>. The names that \<^verbatim>\<open>_core.py\<close> defines are the parameter
  \<open>core_names\<close>: line 3 fails when one of the two names it asks for is not among them.
\<close>

definition exec_init :: "string list \<Rightarrow> import_error + string list" where
  "exec_init core_names =
     (case import_from core_names [] [''PythonInfo'', ''anchorfix''] of
        Inl err \<Rightarrow> Inl err
      | Inr u \<Rightarrow> Inr (concat (map bound_names init_py)))"

text \<open>Line 7 of \<^verbatim>\<open>_core_test.py\<close>: the names the tests import from the top level.\<close>

definition test_import :: "string list" where
  "test_import = [''DuplicateIdError'', ''process_html'', ''process_html_file'']"

definition import_from_anchorfix :: "string list \<Rightarrow> string list \<Rightarrow> import_error + unit" where
  "import_from_anchorfix core_names names =
     (case exec_init core_names of
        Inl err \<Rightarrow> Inl err
      | Inr ns \<Rightarrow> import_from ns submodules names)"

section \<open>Properties\<close>

subsection \<open>The top level of the package\<close>

lemma import_from_anchorfix_test_import:
  "import_from_anchorfix core_names test_import =
     (case exec_init core_names of
        Inl err \<Rightarrow> Inl err
      | Inr ns \<Rightarrow> Inl (ImportError ''DuplicateIdError''))"
  by (simp add: import_from_anchorfix_def exec_init_def init_py_def submodules_def
      test_import_def split: sum.splits)

text \<open>
  Claim C10. \<^verbatim>\<open>__init__.py\<close> exports exactly \<open>anchorfix\<close> and \<open>PythonInfo\<close>, both
  imported from \<^verbatim>\<open>._core\<close>; none of \<open>process_html\<close>, \<open>process_html_file\<close> and
  \<open>DuplicateIdError\<close> is exported or bound by it, and the import on line 7 of the test
  module fails whatever \<^verbatim>\<open>_core.py\<close> defines.
\<close>

theorem top_level_exports:
  "set all_names = {''anchorfix'', ''PythonInfo''} \<and>
   FromImport ''._core'' (rev all_names) \<in> set init_py \<and>
   filter (\<lambda>n. n \<in> set all_names \<or> n \<in> set (concat (map bound_names init_py))
                 \<or> n \<in> set submodules) test_import = [] \<and>
   (\<forall>core_names. \<exists>err. import_from_anchorfix core_names test_import = Inl err)"
proof -
  have "\<exists>err. import_from_anchorfix core_names test_import = Inl err" for core_names
    by (cases "exec_init core_names") (simp_all add: import_from_anchorfix_test_import)
  moreover have "set all_names = {''anchorfix'', ''PythonInfo''}"
    by (auto simp add: all_names_def)
  moreover have "FromImport ''._core'' (rev all_names) \<in> set init_py"
    by (simp add: all_names_def init_py_def)
  moreover have "filter (\<lambda>n. n \<in> set all_names \<or> n \<in> set (concat (map bound_names init_py))
                 \<or> n \<in> set submodules) test_import = []"
    by (simp add: all_names_def init_py_def submodules_def test_import_def)
  ultimately show ?thesis by blast
qed

end
